theory Spec2Isabelle
  imports Complex_Main "HOL-Library.Multiset"
begin

section \<open>Numbers, errors and the host library\<close>

text \<open>
  The two server files (\<^verbatim>\<open>server.js\<close>, the command-line bot, and \<^verbatim>\<open>mysever.js\<close>,
  the same engine behind an HTTP control surface) are embedded side by side. A function
  that is the same in both files has one definition; where the files differ the
  definition takes the \<open>variant\<close>, or there is one definition per file with the
  file's name as suffix.

  JavaScript numbers are read as \<open>real\<close>: arithmetic and comparison are exact, and
  the rounding of IEEE doubles is not part of the model. \<^verbatim>\<open>BigNumber\<close> values (wei)
  are \<open>int\<close>. Every result of \<^verbatim>\<open>Math.random()\<close>, \<^verbatim>\<open>Date.now()\<close>,
  \<^verbatim>\<open>crypto.randomBytes\<close> and of a call to the chain is an explicit argument, so a
  function of the model is a function of everything the source reads.
\<close>

datatype variant = Server | MySever

datatype error =
    ChainCallError
  | StorageError
  | NumericFault
  | AlreadyRunning
  | UnsupportedChain

text \<open>
  The conversions of the \<^verbatim>\<open>ethers\<close> library and of the host between wei and
  numbers are not code of the repository; the model takes them as a parameter:
  \<^item> \<open>formatEther x\<close> is \<^verbatim>\<open>Number(ethers.utils.formatEther(x))\<close>,
  \<^item> \<open>formatGwei x\<close> is \<^verbatim>\<open>Number(ethers.utils.formatUnits(x, "gwei"))\<close>,
  \<^item> \<open>parseEtherFixed x\<close> is \<^verbatim>\<open>ethers.utils.parseEther(x.toFixed(18))\<close>,
  \<^item> \<open>parseEtherString x\<close> is \<^verbatim>\<open>ethers.utils.parseEther(x.toString())\<close>
    (both throw on a string that is not a decimal with at most 18 places),
  \<^item> \<open>walletAddress k\<close> is \<^verbatim>\<open>new ethers.Wallet(k, provider).address\<close>, which throws
    on a key that is not valid.
\<close>

record ethers_utils =
  formatEther :: "int \<Rightarrow> real"
  formatGwei :: "int \<Rightarrow> real"
  parseEtherFixed :: "real \<Rightarrow> error + int"
  parseEtherString :: "real \<Rightarrow> error + int"
  walletAddress :: "string \<Rightarrow> error + string"

text \<open>
  The exact reading of the conversions, used to evaluate the model on concrete inputs:
  one ether is \<open>10 ^ 18\<close> wei, \<^verbatim>\<open>toFixed(18)\<close> rounds to the nearest multiple of
  \<open>10 ^ -18\<close> (the larger one on a tie) and prints an exponent from \<open>10 ^ 21\<close> on,
  \<^verbatim>\<open>toString\<close> prints a number as it is, and the address of a key is the key
  with a prefix.
\<close>

definition toFixed18 :: "real \<Rightarrow> error + int" where
  "toFixed18 x =
     (if 10 ^ 21 \<le> \<bar>x\<bar> then Inl NumericFault
      else if x < 0 then Inr (- \<lfloor>- x * 10 ^ 18 + 1 / 2\<rfloor>)
      else Inr \<lfloor>x * 10 ^ 18 + 1 / 2\<rfloor>)"

definition toStringWei :: "real \<Rightarrow> error + int" where
  "toStringWei x =
     (if x * 10 ^ 18 = of_int \<lfloor>x * 10 ^ 18\<rfloor> then Inr \<lfloor>x * 10 ^ 18\<rfloor>
      else Inl NumericFault)"

definition exact_utils :: ethers_utils where
  "exact_utils =
     \<lparr> formatEther = (\<lambda>x. of_int x / 10 ^ 18),
       formatGwei = (\<lambda>x. of_int x / 10 ^ 9),
       parseEtherFixed = toFixed18,
       parseEtherString = toStringWei,
       walletAddress = (\<lambda>k. Inr (''0x'' @ k)) \<rparr>"

section \<open>Configuration\<close>

record contracts =
  router :: string
  wAVAX :: string
  targetToken :: string

record 'n tradingParams =
  minAmountAVAX :: 'n
  maxAmountAVAX :: 'n
  minInterval :: 'n
  maxInterval :: 'n
  gasMultiplier :: 'n
  fundAmount :: 'n

text \<open>
  The number type of a configuration is a parameter: the trading engine is analysed
  over \<open>real\<close>, the control surface stores whatever \<^verbatim>\<open>parseFloat\<close> returned.
\<close>

record 'n chainConfig =
  maxGasPrice :: 'n
  contracts :: contracts
  tradingParams :: "'n tradingParams"

record globalConfig =
  RANDOM_VARIANCE :: real
  MIN_AVAX_BALANCE :: real
  ACTIVE_WALLET_PERCENTAGE :: real
  RETRY_DELAY :: real
  CHECK_INTERVAL :: real
  WALLET_FUND_THRESHOLD :: real

definition GLOBAL_CONFIG :: globalConfig where
  "GLOBAL_CONFIG =
     \<lparr> RANDOM_VARIANCE = 1 / 100,
       MIN_AVAX_BALANCE = 1 / 1000,
       ACTIVE_WALLET_PERCENTAGE = 7 / 10,
       RETRY_DELAY = 60000,
       CHECK_INTERVAL = 30000,
       WALLET_FUND_THRESHOLD = 5 / 100 \<rparr>"

text \<open>\<^verbatim>\<open>CHAIN_CONFIG.avax\<close>; the target token comes from the environment.\<close>

definition CHAIN_CONFIG_avax :: "variant \<Rightarrow> string \<Rightarrow> real chainConfig" where
  "CHAIN_CONFIG_avax v token =
     \<lparr> maxGasPrice = 50,
       contracts =
         \<lparr> router = ''0x60aE616a2155Ee3d9A68541Ba4544862310933d4'',
           wAVAX = ''0xB31f66AA3C1e785363F0875A1B74E27b85FD66c7'',
           targetToken = token \<rparr>,
       tradingParams =
         (case v of
            Server \<Rightarrow>
              \<lparr> minAmountAVAX = 1 / 10, maxAmountAVAX = 3 / 10,
                minInterval = 10 * 60 * 1000, maxInterval = 20 * 60 * 1000,
                gasMultiplier = 11 / 10, fundAmount = 5 / 10 \<rparr>
          | MySever \<Rightarrow>
              \<lparr> minAmountAVAX = 1 / 100, maxAmountAVAX = 3 / 100,
                minInterval = 1 * 60 * 1000, maxInterval = 2 * 60 * 1000,
                gasMultiplier = 11 / 10, fundAmount = 4 / 10 \<rparr>) \<rparr>"

section \<open>Wallet records and the bot\<close>

record wallet =
  address :: string
  privateKey :: string
  lastTradeTime :: real

record bot =
  chainConfig :: "real chainConfig"
  mainWallet :: string
  tempWalletCount :: nat
  tempWallets :: "wallet list"
  activeWallets :: "string set"
  walletFile :: string
  running :: bool

text \<open>
  The constructor: only the key \<^verbatim>\<open>avax\<close> is in \<^verbatim>\<open>CHAIN_CONFIG\<close>; the main wallet
  is held by its address.
\<close>

definition constructor_bot ::
  "ethers_utils \<Rightarrow> variant \<Rightarrow> string \<Rightarrow> string \<Rightarrow> string \<Rightarrow> nat \<Rightarrow> error + bot" where
  "constructor_bot u v token chainKey mainWalletPrivateKey n =
     (if chainKey \<noteq> ''avax'' then Inl UnsupportedChain
      else case walletAddress u mainWalletPrivateKey of
        Inl e \<Rightarrow> Inl e
      | Inr a \<Rightarrow>
          Inr \<lparr> chainConfig = CHAIN_CONFIG_avax v token,
                mainWallet = a,
                tempWalletCount = n,
                tempWallets = [],
                activeWallets = {},
                walletFile = ''temp_wallets_'' @ chainKey @ ''.json'',
                running = False \<rparr>)"

section \<open>Random amounts and delays\<close>

text \<open>\<open>r1\<close> and \<open>r2\<close> are the two results of \<^verbatim>\<open>Math.random()\<close>, each in \<open>[0, 1)\<close>.\<close>

definition generateRandomAmount ::
  "globalConfig \<Rightarrow> real tradingParams \<Rightarrow> real \<Rightarrow> real \<Rightarrow> real" where
  "generateRandomAmount g tp r1 r2 =
     (let baseAmount = minAmountAVAX tp + r1 * (maxAmountAVAX tp - minAmountAVAX tp);
          variance = baseAmount * RANDOM_VARIANCE g * (r2 * 2 - 1)
      in baseAmount + variance)"

definition generateRandomDelay :: "real tradingParams \<Rightarrow> real \<Rightarrow> real" where
  "generateRandomDelay tp r = minInterval tp + r * (maxInterval tp - minInterval tp)"

section \<open>The active set\<close>

text \<open>
  \<^verbatim>\<open>Array.prototype.slice(0, c)\<close>: a negative end counts from the end of the array.
\<close>

definition slice0 :: "int \<Rightarrow> 'a list \<Rightarrow> 'a list" where
  "slice0 c xs = (if c < 0 then take (nat (int (length xs) + c)) xs else take (nat c) xs)"

text \<open>
  \<open>sortRandom\<close> is what \<^verbatim>\<open>sort(() => 0.5 - Math.random())\<close> made of the copied
  array: some rearrangement of it.
\<close>

definition updateActiveWallets ::
  "globalConfig \<Rightarrow> (wallet list \<Rightarrow> wallet list) \<Rightarrow> bot \<Rightarrow> bot" where
  "updateActiveWallets g sortRandom b =
     (let activeCount = \<lfloor>real (length (tempWallets b)) * ACTIVE_WALLET_PERCENTAGE g\<rfloor>;
          shuffled = sortRandom (tempWallets b)
      in b\<lparr>activeWallets := set (map address (slice0 activeCount shuffled))\<rparr>)"

section \<open>The wallet file\<close>

text \<open>
  A file holds the JSON text of a wallet array, which \<^verbatim>\<open>JSON.parse\<close> reads back as
  written, or something \<^verbatim>\<open>JSON.parse\<close> throws on. Writing fails on a path that is
  not writable.
\<close>

datatype file_content = WalletJson "wallet list" | Unparsable

record disk =
  files :: "string \<rightharpoonup> file_content"
  writable :: "string \<Rightarrow> bool"

definition writeFileSync :: "string \<Rightarrow> wallet list \<Rightarrow> disk \<Rightarrow> error + disk" where
  "writeFileSync path ws d =
     (if writable d path then Inr (d\<lparr>files := (files d)(path \<mapsto> WalletJson ws)\<rparr>)
      else Inl StorageError)"



section \<open>Calls to the chain\<close>

text \<open>
  What a function asks the chain to do is returned as the list of its calls, in the
  order made: a native transfer (\<^verbatim>\<open>sendTransaction\<close>), an \<^verbatim>\<open>approve\<close> of the token,
  and the two swaps of the router. \<open>fixedArgs\<close> are the two literal \<open>0\<close> that
  \<^verbatim>\<open>server.js\<close> passes after the amounts (\<^verbatim>\<open>mysever.js\<close> passes none); \<open>nonce\<close> is
  set by \<^verbatim>\<open>server.js\<close> alone. A call is listed when it is made, whether or not it
  then succeeds.
\<close>

datatype call =
    SendTransaction (sender: string) (recipient: string) (amount: int)
      (gasLimit: int) (gasPrice: int)
  | Approve (sender: string) (spender: string) (amount: int)
  | SwapNativeForTokens (sender: string) (minOut: int) (fixedArgs: "int list")
      (path: "string list") (recipient: string) (deadline: int) (amount: int)
      (gasLimit: int) (gasPrice: int)
  | SwapTokensForNative (sender: string) (amount: int) (minOut: int) (fixedArgs: "int list")
      (path: "string list") (recipient: string) (deadline: int)
      (gasLimit: int) (gasPrice: int) (nonce: "int option")

text \<open>\<^verbatim>\<open>BigNumber.div\<close> drops the fraction (rounds toward zero).\<close>

definition BN_div :: "int \<Rightarrow> int \<Rightarrow> int" where
  "BN_div a b = sgn a * sgn b * (\<bar>a\<bar> div \<bar>b\<bar>)"

section \<open>Funding and sweeping\<close>

text \<open>
  The answers of the chain to one \<^verbatim>\<open>fundWallet\<close>. Every failure inside is caught and
  logged, and nothing is returned, so whether the transfer confirms is not an input.
\<close>

record fund_responses =
  fw_balance :: "error + int"
  fw_gasPrice :: "error + int"

definition fundWallet ::
  "variant \<Rightarrow> ethers_utils \<Rightarrow> globalConfig \<Rightarrow> bot \<Rightarrow> string \<Rightarrow> fund_responses \<Rightarrow> call list" where
  "fundWallet v u g b walletAddr r =
     (case fw_balance r of
        Inl e \<Rightarrow> []
      | Inr balance \<Rightarrow>
          if formatEther u balance < WALLET_FUND_THRESHOLD g then
            (case (case v of Server \<Rightarrow> parseEtherString u | MySever \<Rightarrow> parseEtherFixed u)
                    (fundAmount (tradingParams (chainConfig b))) of
               Inl e \<Rightarrow> []
             | Inr amt \<Rightarrow>
                 (case fw_gasPrice r of
                    Inl e \<Rightarrow> []
                  | Inr gp \<Rightarrow> [SendTransaction (mainWallet b) walletAddr amt 21000 gp]))
          else [])"

record sweep_responses =
  rf_balance :: "error + int"
  rf_gasPrice :: "error + int"

text \<open>
  \<^verbatim>\<open>server.js\<close>: the reserve is \<^verbatim>\<open>parseEther("0.01")\<close>, that is \<open>10 ^ 16\<close> wei; the
  gas price is asked for only above the reserve, and the signing wallet is made inside
  the \<^verbatim>\<open>try\<close>.
\<close>

definition returnFundsToMain_server ::
  "ethers_utils \<Rightarrow> bot \<Rightarrow> wallet \<Rightarrow> sweep_responses \<Rightarrow> error + call list" where
  "returnFundsToMain_server u b w r =
     (case rf_balance r of
        Inl e \<Rightarrow> Inr []
      | Inr balance \<Rightarrow>
          if balance > 10 ^ 16 then
            (case rf_gasPrice r of
               Inl e \<Rightarrow> Inr []
             | Inr gp \<Rightarrow>
                 (let gasLimit = 21000;
                      gasCost = gp * gasLimit;
                      amountToSend = balance - gasCost
                  in if amountToSend > 0 then
                       (case walletAddress u (privateKey w) of
                          Inl e \<Rightarrow> Inr []
                        | Inr a \<Rightarrow> Inr [SendTransaction a (mainWallet b) amountToSend gasLimit gp])
                     else Inr []))
          else Inr [])"

text \<open>
  \<^verbatim>\<open>mysever.js\<close>: the signing wallet is made before the \<^verbatim>\<open>try\<close>, balance and gas
  price are both asked for, and there is no reserve.
\<close>

definition returnFundsToMain_mysever ::
  "ethers_utils \<Rightarrow> bot \<Rightarrow> wallet \<Rightarrow> sweep_responses \<Rightarrow> error + call list" where
  "returnFundsToMain_mysever u b w r =
     (case walletAddress u (privateKey w) of
        Inl e \<Rightarrow> Inl e
      | Inr a \<Rightarrow>
          (case rf_balance r of
             Inl e \<Rightarrow> Inr []
           | Inr balance \<Rightarrow>
               (case rf_gasPrice r of
                  Inl e \<Rightarrow> Inr []
                | Inr gp \<Rightarrow>
                    (let gasLimit = 21000;
                         amountToSend = balance - gp * gasLimit
                     in if amountToSend > 0 then
                          Inr [SendTransaction a (mainWallet b) amountToSend gasLimit gp]
                        else Inr []))))"

definition returnFundsToMain ::
  "variant \<Rightarrow> ethers_utils \<Rightarrow> bot \<Rightarrow> wallet \<Rightarrow> sweep_responses \<Rightarrow> error + call list" where
  "returnFundsToMain v =
     (case v of Server \<Rightarrow> returnFundsToMain_server | MySever \<Rightarrow> returnFundsToMain_mysever)"

section \<open>Quotes and swaps\<close>

text \<open>
  \<open>amounts\<close> is the answer of \<^verbatim>\<open>getAmountsOut\<close>. The source returns the string
  \<^verbatim>\<open>formatEther(expectedOutput)\<close> and reads it back with \<^verbatim>\<open>Number\<close>; the model
  holds the number. On any failure (also an empty answer, whose last element is
  \<^verbatim>\<open>undefined\<close>) the source returns \<^verbatim>\<open>null\<close>.
\<close>

definition calculateSlippage :: "ethers_utils \<Rightarrow> error + int list \<Rightarrow> real option" where
  "calculateSlippage u amounts =
     (case amounts of
        Inl e \<Rightarrow> None
      | Inr as \<Rightarrow> if as = [] then None else Some (formatEther u (last as)))"

text \<open>
  \<^verbatim>\<open>expectedOutput ? parseEther(...(Number(expectedOutput) * 0.95)...) : 0\<close>. A string
  of \<^verbatim>\<open>formatEther\<close> is never empty, so it is truthy whenever there is one.
\<close>

definition minOutOf :: "(real \<Rightarrow> error + int) \<Rightarrow> real option \<Rightarrow> error + int" where
  "minOutOf parse expectedOutput =
     (case expectedOutput of
        Some q \<Rightarrow> parse (q * (95 / 100))
      | None \<Rightarrow> Inr 0)"

record buy_responses =
  b_now :: real
  b_quote :: "error + int list"
  b_swap :: "error + unit"

text \<open>
  A swap returns the calls it made and whether it threw. \<open>b_swap\<close> is the outcome of
  the swap call and of waiting for it.
\<close>

definition buyTokensWithAVAX ::
  "variant \<Rightarrow> ethers_utils \<Rightarrow> bot \<Rightarrow> string \<Rightarrow> real \<Rightarrow> int \<Rightarrow> buy_responses \<Rightarrow>
   call list \<times> (error + unit)" where
  "buyTokensWithAVAX v u b walletAddr amountAVAX gp r =
     (let swapPath = [wAVAX (contracts (chainConfig b)), targetToken (contracts (chainConfig b))];
          swapDeadline = \<lfloor>b_now r / 1000\<rfloor> + 60 * 20
      in case parseEtherFixed u amountAVAX of
           Inl e \<Rightarrow> ([], Inl e)
         | Inr amountInWei \<Rightarrow>
             (case minOutOf (case v of Server \<Rightarrow> parseEtherString u | MySever \<Rightarrow> parseEtherFixed u)
                     (calculateSlippage u (b_quote r)) of
                Inl e \<Rightarrow> ([], Inl e)
              | Inr m \<Rightarrow>
                  ([SwapNativeForTokens walletAddr m (case v of Server \<Rightarrow> [0, 0] | MySever \<Rightarrow> [])
                      swapPath walletAddr swapDeadline amountInWei 300000 gp],
                   b_swap r)))"

record sell_responses =
  s_random :: real
  s_approve :: "error + unit"
  s_now :: real
  s_quote :: "error + int list"
  s_txCount :: "error + int"
  s_swap :: "error + unit"

definition sellPercentage :: "real \<Rightarrow> real" where
  "sellPercentage r = 3 / 10 + r * (4 / 10)"

definition amountToSell :: "real \<Rightarrow> real \<Rightarrow> real" where
  "amountToSell availableAmount r = availableAmount * sellPercentage r"

definition sellTokensForAVAX ::
  "variant \<Rightarrow> ethers_utils \<Rightarrow> bot \<Rightarrow> string \<Rightarrow> real \<Rightarrow> int \<Rightarrow> sell_responses \<Rightarrow>
   call list \<times> (error + unit)" where
  "sellTokensForAVAX v u b walletAddr availableAmount gp r =
     (case parseEtherFixed u (amountToSell availableAmount (s_random r)) of
        Inl e \<Rightarrow> ([], Inl e)
      | Inr amountIn \<Rightarrow>
          (let approval = Approve walletAddr (router (contracts (chainConfig b))) amountIn
           in case s_approve r of
                Inl e \<Rightarrow> ([approval], Inl e)
              | Inr _ \<Rightarrow>
                  (let swapPath =
                         [targetToken (contracts (chainConfig b)), wAVAX (contracts (chainConfig b))];
                       swapDeadline = \<lfloor>s_now r / 1000\<rfloor> + 60 * 20
                   in case minOutOf (parseEtherFixed u) (calculateSlippage u (s_quote r)) of
                        Inl e \<Rightarrow> ([approval], Inl e)
                      | Inr m \<Rightarrow>
                          (case v of
                             Server \<Rightarrow>
                               (case s_txCount r of
                                  Inl e \<Rightarrow> ([approval], Inl e)
                                | Inr c \<Rightarrow>
                                    ([approval,
                                      SwapTokensForNative walletAddr amountIn m [0, 0] swapPath
                                        walletAddr swapDeadline 300000 gp (Some (c + 1))],
                                     s_swap r))
                           | MySever \<Rightarrow>
                               ([approval,
                                 SwapTokensForNative walletAddr amountIn m [] swapPath
                                   walletAddr swapDeadline 300000 gp None],
                                s_swap r)))))"

section \<open>One trade\<close>

record trade_responses =
  t_fund :: fund_responses
  t_avaxBalance :: "error + int"
  t_tokenBalance :: "error + int"
  t_random1 :: real
  t_random2 :: real
  t_randomDir :: real
  t_gasPrice :: "error + int"
  t_buy :: buy_responses
  t_sell :: sell_responses
  t_sweep :: sweep_responses
  t_now :: real

text \<open>The three ways \<^verbatim>\<open>executeTrade\<close> ends, as its log lines tell them apart.\<close>

datatype trade_log =
    TradeExecuted bool real
  | InsufficientBalance
  | TradeFailed error

text \<open>
  \<^verbatim>\<open>executeTrade\<close> returns the wallet record as it leaves it, the calls made and the
  log line. The signing wallet is made before the \<^verbatim>\<open>try\<close>: an invalid key is
  thrown to the caller.
\<close>

definition executeTrade ::
  "variant \<Rightarrow> ethers_utils \<Rightarrow> globalConfig \<Rightarrow> bot \<Rightarrow> wallet \<Rightarrow> trade_responses \<Rightarrow>
   error + wallet \<times> call list \<times> trade_log" where
  "executeTrade v u g b walletInfo r =
     (case walletAddress u (privateKey walletInfo) of
        Inl e \<Rightarrow> Inl e
      | Inr a \<Rightarrow>
          Inr (let funding = fundWallet v u g b a (t_fund r)
               in case t_avaxBalance r of
                    Inl e \<Rightarrow> (walletInfo, funding, TradeFailed e)
                  | Inr AVAXBalance \<Rightarrow>
               (case t_tokenBalance r of
                    Inl e \<Rightarrow> (walletInfo, funding, TradeFailed e)
                  | Inr tokenBalance \<Rightarrow>
               (let AVAXBalanceNum = formatEther u AVAXBalance;
                    tokenBalanceNum = formatEther u tokenBalance;
                    tradeAmount = generateRandomAmount g (tradingParams (chainConfig b))
                                    (t_random1 r) (t_random2 r)
                in if AVAXBalanceNum < tradeAmount + MIN_AVAX_BALANCE g
                   then (walletInfo, funding, InsufficientBalance)
                   else
               (let canSell = tokenBalanceNum > 0;
                    isBuy = (\<not> canSell \<or> t_randomDir r > 1 / 2)
                in case t_gasPrice r of
                     Inl e \<Rightarrow> (walletInfo, funding, TradeFailed e)
                   | Inr gp \<Rightarrow>
               (let adjustedGasPrice =
                      BN_div (gp * \<lfloor>gasMultiplier (tradingParams (chainConfig b)) * 100\<rfloor>) 100
                in if isBuy then
                     (case buyTokensWithAVAX v u b a tradeAmount adjustedGasPrice (t_buy r) of
                        (calls, Inl e) \<Rightarrow> (walletInfo, funding @ calls, TradeFailed e)
                      | (calls, Inr _) \<Rightarrow>
                          (walletInfo\<lparr>lastTradeTime := t_now r\<rparr>, funding @ calls,
                           TradeExecuted True tradeAmount))
                   else
                     (case sellTokensForAVAX v u b a tokenBalanceNum adjustedGasPrice (t_sell r) of
                        (calls, Inl e) \<Rightarrow> (walletInfo, funding @ calls, TradeFailed e)
                      | (calls, Inr _) \<Rightarrow>
                          (case returnFundsToMain v u b walletInfo (t_sweep r) of
                             Inl e \<Rightarrow> (walletInfo, funding @ calls, TradeFailed e)
                           | Inr swept \<Rightarrow>
                               (walletInfo\<lparr>lastTradeTime := t_now r\<rparr>, funding @ calls @ swept,
                                TradeExecuted False tradeAmount)))))))))"

section \<open>The trading loop\<close>

text \<open>
  \<^verbatim>\<open>server.js\<close> asks for the gas price and answers \<^verbatim>\<open>true\<close> whatever it is;
  \<^verbatim>\<open>mysever.js\<close> compares it, in gwei, with \<open>maxGasPrice\<close>. Both throw when the query
  fails.
\<close>

definition isGasPriceAcceptable_server ::
  "ethers_utils \<Rightarrow> real chainConfig \<Rightarrow> error + int \<Rightarrow> error + bool" where
  "isGasPriceAcceptable_server u cfg gasResponse =
     (case gasResponse of
        Inl e \<Rightarrow> Inl e
      | Inr chainGas \<Rightarrow> (let chainGasGwei = formatGwei u chainGas in Inr True))"

definition isGasPriceAcceptable_mysever ::
  "ethers_utils \<Rightarrow> real chainConfig \<Rightarrow> error + int \<Rightarrow> error + bool" where
  "isGasPriceAcceptable_mysever u cfg gasResponse =
     (case gasResponse of
        Inl e \<Rightarrow> Inl e
      | Inr chainGas \<Rightarrow> (let chainGasGwei = formatGwei u chainGas in Inr (chainGasGwei < maxGasPrice cfg)))"

definition isGasPriceAcceptable ::
  "variant \<Rightarrow> ethers_utils \<Rightarrow> real chainConfig \<Rightarrow> error + int \<Rightarrow> error + bool" where
  "isGasPriceAcceptable v =
     (case v of Server \<Rightarrow> isGasPriceAcceptable_server | MySever \<Rightarrow> isGasPriceAcceptable_mysever)"

text \<open>
  A stop request (\<^verbatim>\<open>/api/stop\<close>, which calls \<^verbatim>\<open>stopTrading\<close> on every bot) is handled
  while the loop is suspended in an \<^verbatim>\<open>await\<close>: here, while the trade of the wallet at
  a given index of the pool is in flight, or during the sleep that ends the cycle.
\<close>

datatype stop_request = NoStop | StopDuringTrade nat | StopDuringSleep

definition stopTrading :: "bot \<Rightarrow> bot" where
  "stopTrading b = b\<lparr>running := False\<rparr>"

text \<open>
  What one cycle reads: the draw that decides on a new active set and the random sort,
  the gas price, the clock, and per index of the pool the delay draw, the answers to
  the trade and the jitter draw.
\<close>

record cycle_responses =
  c_randomUpdate :: real
  c_sortRandom :: "wallet list \<Rightarrow> wallet list"
  c_gasPrice :: "error + int"
  c_now :: real
  c_randomDelay :: "nat \<Rightarrow> real"
  c_trade :: "nat \<Rightarrow> trade_responses"
  c_jitter :: "nat \<Rightarrow> real"
  c_stop :: stop_request

text \<open>
  What the loop does, in order: \<open>Trade i calls outcome\<close> is one \<^verbatim>\<open>executeTrade\<close> on
  the wallet at index \<open>i\<close> of the pool, \<open>Sleep ms\<close> one timed wait, \<open>Persisted\<close> the
  write of the wallet file, \<open>LoopError\<close> the \<^verbatim>\<open>catch\<close> of the loop, \<open>Stopped\<close> the
  line after the loop.
\<close>

datatype event =
    ActiveSetUpdated
  | GasTooHigh
  | Trade nat "call list" trade_log
  | Sleep real
  | Persisted
  | LoopError error
  | Stopped

fun tradesOf :: "event list \<Rightarrow> nat list" where
  "tradesOf [] = []"
| "tradesOf (Trade i calls outcome # evs) = i # tradesOf evs"
| "tradesOf (ev # evs) = tradesOf evs"

text \<open>
  The eligible wallets, by their indices in the pool (the array that \<^verbatim>\<open>filter\<close>
  returns holds the records of the pool themselves).
\<close>

definition eligibleWallets :: "bot \<Rightarrow> real \<Rightarrow> (nat \<Rightarrow> real) \<Rightarrow> nat list" where
  "eligibleWallets b now randomDelay =
     filter
       (\<lambda>i. address (tempWallets b ! i) \<in> activeWallets b \<and>
            now - lastTradeTime (tempWallets b ! i)
              \<ge> generateRandomDelay (tradingParams (chainConfig b)) (randomDelay i))
       [0..<length (tempWallets b)]"

text \<open>The stop request, when it is the one handled during the trade at index \<open>i\<close>.\<close>

definition stopDuringTrade :: "variant \<Rightarrow> cycle_responses \<Rightarrow> nat \<Rightarrow> bot \<Rightarrow> bot" where
  "stopDuringTrade v r i b =
     (if v = MySever \<and> c_stop r = StopDuringTrade i then stopTrading b else b)"

text \<open>
  The \<^verbatim>\<open>for\<close> loop over the eligible wallets. It returns the bot, the events and the
  error that ended it early, if one did. The stop flag is written when the request is
  handled and is not read here.
\<close>

fun tradeWallets ::
  "variant \<Rightarrow> ethers_utils \<Rightarrow> globalConfig \<Rightarrow> cycle_responses \<Rightarrow> nat list \<Rightarrow> bot \<Rightarrow>
   bot \<times> event list \<times> error option" where
  "tradeWallets v u g r [] b = (b, [], None)"
| "tradeWallets v u g r (i # is) b =
     (case executeTrade v u g b (tempWallets b ! i) (c_trade r i) of
        Inl e \<Rightarrow> (b, [], Some e)
      | Inr (w', calls, outcome) \<Rightarrow>
          (let b1 = b\<lparr>tempWallets := (tempWallets b)[i := w']\<rparr>;
               b2 = stopDuringTrade v r i b1
           in case tradeWallets v u g r is b2 of
                (b3, evs, err) \<Rightarrow>
                  (b3,
                   Trade i calls outcome # Sleep (of_int \<lfloor>1000 + c_jitter r i * 2000\<rfloor>) # evs,
                   err)))"

definition cycleStart :: "globalConfig \<Rightarrow> cycle_responses \<Rightarrow> bot \<Rightarrow> bot" where
  "cycleStart g r b =
     (if c_randomUpdate r < 1 / 10 then updateActiveWallets g (c_sortRandom r) b else b)"

text \<open>
  The second half of a cycle: the eligibility scan, the trades, the write of the wallet
  file and the sleep. An error thrown on the way goes to the \<^verbatim>\<open>catch\<close> of the loop.
\<close>

definition scanAndTrade ::
  "variant \<Rightarrow> ethers_utils \<Rightarrow> globalConfig \<Rightarrow> cycle_responses \<Rightarrow> bot \<Rightarrow> disk \<Rightarrow>
   bot \<times> disk \<times> event list" where
  "scanAndTrade v u g r b d =
     (case tradeWallets v u g r (eligibleWallets b (c_now r) (c_randomDelay r)) b of
        (b2, evs, Some e) \<Rightarrow> (b2, d, evs @ [LoopError e, Sleep (RETRY_DELAY g)])
      | (b2, evs, None) \<Rightarrow>
          (case writeFileSync (walletFile b2) (tempWallets b2) d of
             Inl e \<Rightarrow> (b2, d, evs @ [LoopError e, Sleep (RETRY_DELAY g)])
           | Inr d' \<Rightarrow> (b2, d', evs @ [Persisted, Sleep (CHECK_INTERVAL g)])))"

text \<open>One pass through the body of the \<^verbatim>\<open>while\<close> loop.\<close>

definition tradingCycle ::
  "variant \<Rightarrow> ethers_utils \<Rightarrow> globalConfig \<Rightarrow> cycle_responses \<Rightarrow> bot \<times> disk \<Rightarrow>
   bot \<times> disk \<times> event list" where
  "tradingCycle v u g r s =
     (let b = fst s; d = snd s;
          b1 = cycleStart g r b;
          updated = (if c_randomUpdate r < 1 / 10 then [ActiveSetUpdated] else [])
      in case isGasPriceAcceptable v u (chainConfig b1) (c_gasPrice r) of
           Inl e \<Rightarrow> (b1, d, updated @ [LoopError e, Sleep (RETRY_DELAY g)])
         | Inr gasOk \<Rightarrow>
             if \<not> gasOk then (b1, d, updated @ [GasTooHigh, Sleep (RETRY_DELAY g)])
             else
               (case scanAndTrade v u g r b1 d of
                  (b2, d', evs) \<Rightarrow> (b2, d', updated @ evs)))"

text \<open>
  The loop condition: \<^verbatim>\<open>true\<close> in \<^verbatim>\<open>server.js\<close>, \<^verbatim>\<open>this.running\<close> in
  \<^verbatim>\<open>mysever.js\<close>.
\<close>

definition loopCondition :: "variant \<Rightarrow> bot \<Rightarrow> bool" where
  "loopCondition v b = (case v of Server \<Rightarrow> True | MySever \<Rightarrow> running b)"

text \<open>
  The loop runs on the answers of as many cycles as are given. \<open>None\<close> says that the
  answers ran out with the loop still running; \<open>Some\<close> that the loop was left, with
  the state and the events up to then.
\<close>

fun tradingLoop ::
  "variant \<Rightarrow> ethers_utils \<Rightarrow> globalConfig \<Rightarrow> cycle_responses list \<Rightarrow> bot \<times> disk \<Rightarrow>
   (bot \<times> disk \<times> event list) option" where
  "tradingLoop v u g [] s = (if loopCondition v (fst s) then None else Some (fst s, snd s, [Stopped]))"
| "tradingLoop v u g (r # rs) s =
     (if loopCondition v (fst s) then
        (case tradingCycle v u g r s of
           (b', d', evs) \<Rightarrow>
             (let b'' = (if v = MySever \<and> c_stop r = StopDuringSleep then stopTrading b' else b')
              in case tradingLoop v u g rs (b'', d') of
                   None \<Rightarrow> None
                 | Some (b3, d3, evs') \<Rightarrow> Some (b3, d3, evs @ evs')))
      else Some (fst s, snd s, [Stopped]))"

definition startTrading ::
  "variant \<Rightarrow> ethers_utils \<Rightarrow> globalConfig \<Rightarrow> cycle_responses list \<Rightarrow> bot \<times> disk \<Rightarrow>
   error + (bot \<times> disk \<times> event list) option" where
  "startTrading v u g rs s =
     (case v of
        Server \<Rightarrow> Inr (tradingLoop Server u g rs s)
      | MySever \<Rightarrow>
          if running (fst s) then Inl AlreadyRunning
          else Inr (tradingLoop MySever u g rs ((fst s)\<lparr>running := True\<rparr>, snd s)))"

section \<open>The control surface of mysever.js\<close>

text \<open>
  \<^verbatim>\<open>parseInt\<close> and \<^verbatim>\<open>parseFloat\<close> return any JavaScript number, \<^verbatim>\<open>NaN\<close> and the
  infinities included. \<open>Num 0\<close> stands for both zeros.
\<close>

datatype jsnum = NaN | Num real | PosInfinity | NegInfinity

text \<open>The numbers that \<^verbatim>\<open>||\<close> skips: \<open>0\<close>, \<open>-0\<close> and \<^verbatim>\<open>NaN\<close>.\<close>

definition falsy :: "jsnum \<Rightarrow> bool" where
  "falsy a = (a = NaN \<or> a = Num 0)"

definition js_or :: "jsnum \<Rightarrow> jsnum \<Rightarrow> jsnum" where
  "js_or a b = (if falsy a then b else a)"

text \<open>\<^verbatim>\<open>a * 1000\<close>.\<close>

definition times1000 :: "jsnum \<Rightarrow> jsnum" where
  "times1000 a =
     (case a of
        NaN \<Rightarrow> NaN
      | Num x \<Rightarrow> Num (x * 1000)
      | PosInfinity \<Rightarrow> PosInfinity
      | NegInfinity \<Rightarrow> NegInfinity)"

text \<open>
  The body of a start request, each field after its \<^verbatim>\<open>parseInt\<close> (the wallet count
  and the two intervals) or \<^verbatim>\<open>parseFloat\<close> (the others). A field that is missing
  parses to \<^verbatim>\<open>NaN\<close>.
\<close>

record start_request =
  walletCounts :: jsnum
  AvaxFundAmount :: jsnum
  maxGas :: jsnum
  tradingMintAmount :: jsnum
  tradingMaxAmount :: jsnum
  tradingMinInterval :: jsnum
  tradingMaxInterval :: jsnum

text \<open>
  The state of the server process. \<open>CHAIN_CONFIG\<close> is the entry \<^verbatim>\<open>CHAIN_CONFIG.avax\<close>
  of the module: the constructor stores a reference to it in \<^verbatim>\<open>this.chainConfig\<close>, so
  every bot reads and writes this one object. A bot of the list is held by the wallet
  count it was made with and its \<^verbatim>\<open>running\<close> flag.
\<close>

record started_bot =
  madeWithCount :: jsnum
  botRunning :: bool

record server_state =
  CHAIN_CONFIG :: "jsnum chainConfig"
  isRunning :: bool
  bots :: "started_bot list"

definition initial_CHAIN_CONFIG :: "string \<Rightarrow> jsnum chainConfig" where
  "initial_CHAIN_CONFIG token =
     (let c = CHAIN_CONFIG_avax MySever token; tp = tradingParams c
      in \<lparr> maxGasPrice = Num (maxGasPrice c),
           contracts = contracts c,
           tradingParams =
             \<lparr> minAmountAVAX = Num (minAmountAVAX tp), maxAmountAVAX = Num (maxAmountAVAX tp),
               minInterval = Num (minInterval tp), maxInterval = Num (maxInterval tp),
               gasMultiplier = Num (gasMultiplier tp), fundAmount = Num (fundAmount tp) \<rparr> \<rparr>)"

definition initial_state :: "string \<Rightarrow> server_state" where
  "initial_state token =
     \<lparr>CHAIN_CONFIG = initial_CHAIN_CONFIG token, isRunning = False, bots = []\<rparr>"

text \<open>The six assignments to \<^verbatim>\<open>bot.chainConfig\<close> of the start handler.\<close>

definition overrideConfig :: "start_request \<Rightarrow> jsnum chainConfig \<Rightarrow> jsnum chainConfig" where
  "overrideConfig req cfg =
     cfg\<lparr> maxGasPrice := js_or (maxGas req) (maxGasPrice cfg),
          tradingParams :=
            (tradingParams cfg)
              \<lparr> fundAmount := js_or (AvaxFundAmount req) (fundAmount (tradingParams cfg)),
                minAmountAVAX := js_or (tradingMintAmount req) (minAmountAVAX (tradingParams cfg)),
                maxAmountAVAX := js_or (tradingMaxAmount req) (maxAmountAVAX (tradingParams cfg)),
                minInterval :=
                  js_or (times1000 (tradingMinInterval req)) (minInterval (tradingParams cfg)),
                maxInterval :=
                  js_or (times1000 (tradingMaxInterval req)) (maxInterval (tradingParams cfg)) \<rparr> \<rparr>"

datatype response = Started | BadRequest | ServerError error

text \<open>
  \<^verbatim>\<open>POST /api/start\<close>. \<open>made\<close> is the outcome of the constructor and
  \<open>initialized\<close> that of \<^verbatim>\<open>bot.initialize()\<close>; the overrides are written between
  the two. \<^verbatim>\<open>bot.startTrading()\<close> is not awaited: it sets both flags before its
  first \<^verbatim>\<open>await\<close>.
\<close>

definition api_start ::
  "start_request \<Rightarrow> error + unit \<Rightarrow> error + unit \<Rightarrow> server_state \<Rightarrow> response \<times> server_state" where
  "api_start req made initialized st =
     (if isRunning st then (BadRequest, st)
      else case made of
        Inl e \<Rightarrow> (ServerError e, st)
      | Inr _ \<Rightarrow>
          (let newBot = \<lparr>madeWithCount = js_or (walletCounts req) (Num 5), botRunning = False\<rparr>;
               st1 = st\<lparr>CHAIN_CONFIG := overrideConfig req (CHAIN_CONFIG st)\<rparr>
           in case initialized of
                Inl e \<Rightarrow> (ServerError e, st1)
              | Inr _ \<Rightarrow>
                  (Started,
                   st1\<lparr>bots := bots st1 @ [newBot\<lparr>botRunning := True\<rparr>], isRunning := True\<rparr>)))"

text \<open>\<^verbatim>\<open>POST /api/stop\<close>: \<^verbatim>\<open>stopTrading\<close> on every bot of the list.\<close>

definition api_stop :: "server_state \<Rightarrow> server_state" where
  "api_stop st = st\<lparr>bots := map (\<lambda>b. b\<lparr>botRunning := False\<rparr>) (bots st), isRunning := False\<rparr>"

text \<open>No numeric parameter of a configuration is \<open>0\<close> or \<^verbatim>\<open>NaN\<close>.\<close>

definition nonzeroConfig :: "jsnum chainConfig \<Rightarrow> bool" where
  "nonzeroConfig cfg =
     (\<not> falsy (maxGasPrice cfg) \<and>
      \<not> falsy (fundAmount (tradingParams cfg)) \<and>
      \<not> falsy (minAmountAVAX (tradingParams cfg)) \<and>
      \<not> falsy (maxAmountAVAX (tradingParams cfg)) \<and>
      \<not> falsy (minInterval (tradingParams cfg)) \<and>
      \<not> falsy (maxInterval (tradingParams cfg)))"

section \<open>Concrete inputs\<close>

text \<open>Small wallets and bots on which the properties below are evaluated.\<close>

definition demo_wallet :: "string \<Rightarrow> wallet" where
  "demo_wallet k = \<lparr>address = ''0x'' @ k, privateKey = k, lastTradeTime = 0\<rparr>"

definition demo_bot :: "variant \<Rightarrow> wallet list \<Rightarrow> bot" where
  "demo_bot v ws =
     \<lparr> chainConfig = CHAIN_CONFIG_avax v ''0xToken'',
       mainWallet = ''0xMain'',
       tempWalletCount = length ws,
       tempWallets = ws,
       activeWallets = {},
       walletFile = ''temp_wallets_avax.json'',
       running = False \<rparr>"

definition demo_disk :: disk where
  "demo_disk = \<lparr>files = Map.empty, writable = (\<lambda>p. True)\<rparr>"


definition demo_sweep :: "int \<Rightarrow> int \<Rightarrow> sweep_responses" where
  "demo_sweep balance gp = \<lparr>rf_balance = Inr balance, rf_gasPrice = Inr gp\<rparr>"

definition demo_quote :: "error + int list" where
  "demo_quote = Inr [10 ^ 17, 10 ^ 18]"

definition demo_buy :: buy_responses where
  "demo_buy = \<lparr>b_now = 1700000000000, b_quote = demo_quote, b_swap = Inr ()\<rparr>"

definition demo_sell :: sell_responses where
  "demo_sell =
     \<lparr> s_random = 1 / 2, s_approve = Inr (), s_now = 1700000000000, s_quote = demo_quote,
       s_txCount = Inr 7, s_swap = Inr () \<rparr>"

definition demo_trade :: "int \<Rightarrow> int \<Rightarrow> trade_responses" where
  "demo_trade avax tokens =
     \<lparr> t_fund = \<lparr>fw_balance = Inr avax, fw_gasPrice = Inr (25 * 10 ^ 9)\<rparr>,
       t_avaxBalance = Inr avax,
       t_tokenBalance = Inr tokens,
       t_random1 = 1 / 2,
       t_random2 = 1 / 2,
       t_randomDir = 1 / 4,
       t_gasPrice = Inr (25 * 10 ^ 9),
       t_buy = demo_buy,
       t_sell = demo_sell,
       t_sweep = demo_sweep avax (25 * 10 ^ 9),
       t_now = 1700000000000 \<rparr>"

definition demo_active_bot :: "variant \<Rightarrow> wallet list \<Rightarrow> bot" where
  "demo_active_bot v ws = (demo_bot v ws)\<lparr>activeWallets := set (map address ws), running := True\<rparr>"

definition demo_cycle :: "int \<Rightarrow> stop_request \<Rightarrow> cycle_responses" where
  "demo_cycle gas stop =
     \<lparr> c_randomUpdate = 1 / 2,
       c_sortRandom = (\<lambda>ws. ws),
       c_gasPrice = Inr gas,
       c_now = 1700000000000,
       c_randomDelay = (\<lambda>i. 1 / 2),
       c_trade = (\<lambda>i. demo_trade (10 ^ 18) 0),
       c_jitter = (\<lambda>i. 1 / 2),
       c_stop = stop \<rparr>"

definition demo_request :: "jsnum \<Rightarrow> start_request" where
  "demo_request gas =
     \<lparr> walletCounts = NaN, AvaxFundAmount = NaN, maxGas = gas, tradingMintAmount = NaN,
       tradingMaxAmount = NaN, tradingMinInterval = Num 0, tradingMaxInterval = NaN \<rparr>"


section \<open>Properties: the random trade amount\<close>

lemma baseAmount_bounds:
  fixes lo hi r :: real
  assumes "lo \<le> hi" "0 \<le> r" "r < 1"
  shows "lo \<le> lo + r * (hi - lo)" and "lo + r * (hi - lo) \<le> hi"
proof -
  have d: "0 \<le> hi - lo" using assms by simp
  show "lo \<le> lo + r * (hi - lo)" using d assms by simp
  have "r * (hi - lo) \<le> 1 * (hi - lo)"
    using d assms by (intro mult_right_mono) simp_all
  then show "lo + r * (hi - lo) \<le> hi" by simp
qed

lemma generateRandomAmount_factor:
  "generateRandomAmount g tp r1 r2 =
     (minAmountAVAX tp + r1 * (maxAmountAVAX tp - minAmountAVAX tp)) *
     (1 + RANDOM_VARIANCE g * (r2 * 2 - 1))"
  by (simp add: generateRandomAmount_def Let_def algebra_simps)

text \<open>
  Claim C4, as the code has it. The draw is \<open>base * (1 + v * (2 * r2 - 1))\<close> with
  \<open>base\<close> between \<open>minAmountAVAX\<close> and \<open>maxAmountAVAX\<close>, so the variance can take it
  below \<open>minAmountAVAX\<close>. For \<open>0 < minAmountAVAX \<le> maxAmountAVAX\<close>, a variance
  factor \<open>v \<ge> 0\<close> and draws in \<open>[0, 1)\<close>: the result is at most
  \<open>maxAmountAVAX * (1 + v)\<close>; and when \<open>v \<le> 1\<close> (the code's factor is \<open>0.01\<close>) it is
  at least \<open>minAmountAVAX * (1 - v)\<close> and not negative.
\<close>

theorem C4_generateRandomAmount_bounds:
  assumes "0 < minAmountAVAX tp" "minAmountAVAX tp \<le> maxAmountAVAX tp"
    and "0 \<le> RANDOM_VARIANCE g"
    and "0 \<le> r1" "r1 < 1" "0 \<le> r2" "r2 < 1"
  shows "generateRandomAmount g tp r1 r2 \<le> maxAmountAVAX tp * (1 + RANDOM_VARIANCE g) \<and>
         (RANDOM_VARIANCE g \<le> 1 \<longrightarrow>
            minAmountAVAX tp * (1 - RANDOM_VARIANCE g) \<le> generateRandomAmount g tp r1 r2 \<and>
            0 \<le> generateRandomAmount g tp r1 r2)"
proof -
  define base where "base = minAmountAVAX tp + r1 * (maxAmountAVAX tp - minAmountAVAX tp)"
  define v where "v = RANDOM_VARIANCE g"
  define f where "f = 1 + v * (r2 * 2 - 1)"
  have res: "generateRandomAmount g tp r1 r2 = base * f"
    by (simp add: generateRandomAmount_factor base_def f_def v_def)
  have lo: "minAmountAVAX tp \<le> base" and hi: "base \<le> maxAmountAVAX tp"
    unfolding base_def using baseAmount_bounds [OF assms(2) assms(4) assms(5)] by simp_all
  have pos: "0 < base" using lo assms(1) by simp
  have v0: "0 \<le> v" using assms(3) by (simp add: v_def)
  have "v * (r2 * 2 - 1) \<le> v * 1"
    using v0 assms(7) by (intro mult_left_mono) simp_all
  then have fhi: "f \<le> 1 + v" by (simp add: f_def)
  have "v * (- 1) \<le> v * (r2 * 2 - 1)"
    using v0 assms(6) by (intro mult_left_mono) simp_all
  then have flo: "1 - v \<le> f" by (simp add: f_def)
  have "base * f \<le> base * (1 + v)"
    using pos fhi by (intro mult_left_mono) simp_all
  also have "\<dots> \<le> maxAmountAVAX tp * (1 + v)"
    using hi v0 by (intro mult_right_mono) simp_all
  finally have upper: "base * f \<le> maxAmountAVAX tp * (1 + v)" .
  have lower: "minAmountAVAX tp * (1 - v) \<le> base * f \<and> 0 \<le> base * f" if "v \<le> 1"
  proof -
    have "minAmountAVAX tp * (1 - v) \<le> base * (1 - v)"
      using lo that by (intro mult_right_mono) simp_all
    also have "\<dots> \<le> base * f"
      using pos flo by (intro mult_left_mono) simp_all
    finally have a: "minAmountAVAX tp * (1 - v) \<le> base * f" .
    have "0 \<le> f" using flo that by simp
    then have "0 \<le> base * f" using pos by simp
    with a show ?thesis by simp
  qed
  show ?thesis using upper lower by (simp add: res v_def)
qed

theorem C4_generateRandomAmount_bounds_witness:
  "generateRandomAmount GLOBAL_CONFIG (tradingParams (CHAIN_CONFIG_avax Server ''T'')) (1 / 2) (3 / 4)
     \<le> maxAmountAVAX (tradingParams (CHAIN_CONFIG_avax Server ''T''))
         * (1 + RANDOM_VARIANCE GLOBAL_CONFIG) \<and>
   minAmountAVAX (tradingParams (CHAIN_CONFIG_avax Server ''T'')) * (1 - RANDOM_VARIANCE GLOBAL_CONFIG)
     \<le> generateRandomAmount GLOBAL_CONFIG (tradingParams (CHAIN_CONFIG_avax Server ''T'')) (1 / 2) (3 / 4) \<and>
   0 \<le> generateRandomAmount GLOBAL_CONFIG (tradingParams (CHAIN_CONFIG_avax Server ''T'')) (1 / 2) (3 / 4)"
  using C4_generateRandomAmount_bounds
    [of "tradingParams (CHAIN_CONFIG_avax Server ''T'')" GLOBAL_CONFIG "1 / 2" "3 / 4"]
  by (simp add: CHAIN_CONFIG_avax_def GLOBAL_CONFIG_def)

text \<open>
  The claim's own lower bound \<open>minAmountAVAX \<le> result\<close> fails with the shipped
  configuration when both draws are \<open>0\<close> (the result is \<open>0.099\<close>, under
  \<open>minAmountAVAX = 0.1\<close>); and with a variance factor of \<open>2\<close> the result is negative.
\<close>

theorem C4_lower_bound_counterexample:
  "generateRandomAmount GLOBAL_CONFIG (tradingParams (CHAIN_CONFIG_avax Server ''T'')) 0 0
     < minAmountAVAX (tradingParams (CHAIN_CONFIG_avax Server ''T'')) \<and>
   generateRandomAmount (GLOBAL_CONFIG\<lparr>RANDOM_VARIANCE := 2\<rparr>)
     (tradingParams (CHAIN_CONFIG_avax Server ''T'')) 0 0 < 0"
  by (simp add: generateRandomAmount_def CHAIN_CONFIG_avax_def GLOBAL_CONFIG_def)

section \<open>Properties: the active set\<close>




lemma tempWallets_updateActiveWallets [simp]:
  "tempWallets (updateActiveWallets g sortRandom b) = tempWallets b"
  by (simp add: updateActiveWallets_def Let_def)

lemma walletFile_updateActiveWallets [simp]:
  "walletFile (updateActiveWallets g sortRandom b) = walletFile b"
  by (simp add: updateActiveWallets_def Let_def)






section \<open>Properties: loading the wallet pool\<close>

lemma constructor_bot_fresh:
  assumes "constructor_bot u v token chainKey mainWalletPrivateKey n = Inr b"
  shows "tempWallets b = [] \<and> tempWalletCount b = n \<and> activeWallets b = {} \<and> \<not> running b \<and>
         walletFile b = ''temp_wallets_'' @ chainKey @ ''.json'' \<and> chainKey = ''avax''"
  using assms by (auto simp: constructor_bot_def split: if_splits sum.splits)




lemma upt2: "[0..<2] = [0, Suc 0]"
  by (simp add: upt_rec)



section \<open>Properties: sweeping back to the main wallet\<close>

lemma returnFundsToMain_server_cases:
  assumes "returnFundsToMain_server u b w r = res"
  shows "res = Inr [] \<or>
         (\<exists>balance gp a. rf_balance r = Inr balance \<and> rf_gasPrice r = Inr gp \<and>
            walletAddress u (privateKey w) = Inr a \<and>
            10 ^ 16 < balance \<and> 0 < balance - gp * 21000 \<and>
            res = Inr [SendTransaction a (mainWallet b) (balance - gp * 21000) 21000 gp])"
  using assms
  by (auto simp: returnFundsToMain_server_def Let_def split: sum.splits if_splits)

lemma returnFundsToMain_mysever_transfer:
  assumes "walletAddress u (privateKey w) = Inr a" "rf_balance r = Inr balance"
    "rf_gasPrice r = Inr gp"
  shows "returnFundsToMain_mysever u b w r =
           Inr (if 0 < balance - gp * 21000
                then [SendTransaction a (mainWallet b) (balance - gp * 21000) 21000 gp] else [])"
  using assms by (simp add: returnFundsToMain_mysever_def Let_def)

text \<open>
  Claim C7 on the two files. In \<^verbatim>\<open>server.js\<close> a transfer is made only above the
  reserve of \<open>0.01\<close> AVAX and only for a positive remainder
  (\<open>returnFundsToMain_server_cases\<close>). \<^verbatim>\<open>mysever.js\<close> has no reserve
  (\<open>returnFundsToMain_mysever_transfer\<close>): with a balance of \<open>0.005\<close> AVAX and a gas
  price of \<open>25\<close> gwei it sends \<open>0.004475\<close> AVAX to the main wallet, where
  \<^verbatim>\<open>server.js\<close> sends nothing.
\<close>

theorem C7_mysever_sweeps_below_reserve:
  "returnFundsToMain_mysever exact_utils (demo_bot MySever [demo_wallet ''k'']) (demo_wallet ''k'')
     (demo_sweep (5 * 10 ^ 15) (25 * 10 ^ 9))
   = Inr [SendTransaction ''0xk'' ''0xMain'' 4475000000000000 21000 25000000000] \<and>
   returnFundsToMain_server exact_utils (demo_bot Server [demo_wallet ''k'']) (demo_wallet ''k'')
     (demo_sweep (5 * 10 ^ 15) (25 * 10 ^ 9))
   = Inr []"
  by (simp add: returnFundsToMain_mysever_def returnFundsToMain_server_def demo_sweep_def
      exact_utils_def demo_bot_def demo_wallet_def Let_def)

section \<open>Properties: the sell amount\<close>






section \<open>Properties: the minimum output of a swap\<close>





section \<open>Properties: the trading loop\<close>

lemma cycleStart_frame [simp]:
  "chainConfig (cycleStart g r b) = chainConfig b"
  "tempWallets (cycleStart g r b) = tempWallets b"
  "walletFile (cycleStart g r b) = walletFile b"
  "running (cycleStart g r b) = running b"
  by (simp_all add: cycleStart_def updateActiveWallets_def Let_def)

lemma executeTrade_valid_key:
  assumes "walletAddress u (privateKey w) = Inr a"
  shows "\<exists>w' calls outcome. executeTrade v u g b w r = Inr (w', calls, outcome)"
proof -
  obtain t where t: "executeTrade v u g b w r = Inr t"
    using assms by (simp add: executeTrade_def)
  obtain w' calls outcome where "t = (w', calls, outcome)"
    by (cases t) blast
  with t show ?thesis by blast
qed

lemma executeTrade_keeps_key:
  assumes "executeTrade v u g b w r = Inr (w', calls, outcome)"
  shows "privateKey w' = privateKey w"
  using assms
  by (auto simp: executeTrade_def Let_def split: sum.splits if_splits prod.splits)

lemma privateKey_list_update:
  assumes "privateKey w' = privateKey (xs ! i)"
  shows "privateKey (xs[i := w'] ! j) = privateKey (xs ! j)"
proof (cases "i < length xs")
  case True
  then show ?thesis using assms by (cases "j = i") simp_all
next
  case False
  then have "xs[i := w'] = xs" by (simp add: list_update_beyond)
  then show ?thesis by simp
qed

lemma tradeWallets_all:
  assumes "\<forall>j \<in> set is. \<exists>a. walletAddress u (privateKey (tempWallets b ! j)) = Inr a"
  shows "\<exists>b' evs. tradeWallets v u g r is b = (b', evs, None) \<and> tradesOf evs = is \<and>
           (running b' \<longleftrightarrow> running b \<and> \<not> (v = MySever \<and> (\<exists>i \<in> set is. c_stop r = StopDuringTrade i))) \<and>
           walletFile b' = walletFile b \<and>
           length (tempWallets b') = length (tempWallets b)"
  using assms
proof (induction "is" arbitrary: b)
  case Nil
  then show ?case by simp
next
  case (Cons i "is")
  from Cons.prems obtain a where a: "walletAddress u (privateKey (tempWallets b ! i)) = Inr a"
    by auto
  obtain w' calls outcome where
    ex: "executeTrade v u g b (tempWallets b ! i) (c_trade r i) = Inr (w', calls, outcome)"
    using executeTrade_valid_key [OF a] by blast
  have key: "privateKey w' = privateKey (tempWallets b ! i)"
    using executeTrade_keeps_key [OF ex] .
  define b1 where "b1 = b\<lparr>tempWallets := (tempWallets b)[i := w']\<rparr>"
  define b2 where "b2 = stopDuringTrade v r i b1"
  have tw: "tempWallets b2 = (tempWallets b)[i := w']"
    by (simp add: b2_def b1_def stopDuringTrade_def stopTrading_def)
  have keys2: "\<forall>j \<in> set is. \<exists>a. walletAddress u (privateKey (tempWallets b2 ! j)) = Inr a"
    using Cons.prems by (simp add: tw privateKey_list_update [OF key])
  from Cons.IH [OF keys2] obtain b' evs where
    rec: "tradeWallets v u g r is b2 = (b', evs, None)" and tr: "tradesOf evs = is"
    and run: "running b' \<longleftrightarrow> running b2 \<and> \<not> (v = MySever \<and> (\<exists>i \<in> set is. c_stop r = StopDuringTrade i))"
    and wf: "walletFile b' = walletFile b2" and len: "length (tempWallets b') = length (tempWallets b2)"
    by blast
  have res: "tradeWallets v u g r (i # is) b =
      (b', Trade i calls outcome # Sleep (of_int \<lfloor>1000 + c_jitter r i * 2000\<rfloor>) # evs, None)"
    using ex rec by (simp add: Let_def b2_def b1_def)
  have run2: "running b2 \<longleftrightarrow> running b \<and> \<not> (v = MySever \<and> c_stop r = StopDuringTrade i)"
    by (simp add: b2_def b1_def stopDuringTrade_def stopTrading_def)
  have wf2: "walletFile b2 = walletFile b"
    by (simp add: b2_def b1_def stopDuringTrade_def stopTrading_def)
  have tr': "tradesOf (Trade i calls outcome # Sleep (of_int \<lfloor>1000 + c_jitter r i * 2000\<rfloor>) # evs) = i # is"
    using tr by simp
  have run': "running b' \<longleftrightarrow>
      running b \<and> \<not> (v = MySever \<and> (\<exists>j \<in> set (i # is). c_stop r = StopDuringTrade j))"
    unfolding run run2 by (simp only: list.set ball_simps bex_simps insert_iff) blast
  have len': "length (tempWallets b') = length (tempWallets b)"
    using len tw by simp
  have wf': "walletFile b' = walletFile b" using wf wf2 by simp
  show ?case
    by (rule exI [where x = b'],
        rule exI [where x = "Trade i calls outcome # Sleep (of_int \<lfloor>1000 + c_jitter r i * 2000\<rfloor>) # evs"],
        intro conjI, rule res, rule tr', rule run', rule wf', rule len')
qed

lemma tradesOf_append: "tradesOf (xs @ ys) = tradesOf xs @ tradesOf ys"
  by (induction xs rule: tradesOf.induct) simp_all

lemma scanAndTrade_all:
  assumes "\<forall>j \<in> set (eligibleWallets b (c_now r) (c_randomDelay r)).
             \<exists>a. walletAddress u (privateKey (tempWallets b ! j)) = Inr a"
  shows "\<exists>b' d' evs. scanAndTrade v u g r b d = (b', d', evs) \<and>
           tradesOf evs = eligibleWallets b (c_now r) (c_randomDelay r) \<and>
           (running b' \<longleftrightarrow>
              running b \<and>
              \<not> (v = MySever \<and>
                 (\<exists>i \<in> set (eligibleWallets b (c_now r) (c_randomDelay r)). c_stop r = StopDuringTrade i)))"
proof -
  from tradeWallets_all [OF assms, of v g r] obtain b' evs where
    tw: "tradeWallets v u g r (eligibleWallets b (c_now r) (c_randomDelay r)) b = (b', evs, None)"
    and tr: "tradesOf evs = eligibleWallets b (c_now r) (c_randomDelay r)"
    and run: "running b' \<longleftrightarrow>
              running b \<and>
              \<not> (v = MySever \<and>
                 (\<exists>i \<in> set (eligibleWallets b (c_now r) (c_randomDelay r)). c_stop r = StopDuringTrade i))"
    by blast
  show ?thesis
  proof (cases "writeFileSync (walletFile b') (tempWallets b') d")
    case (Inl e)
    then have "scanAndTrade v u g r b d = (b', d, evs @ [LoopError e, Sleep (RETRY_DELAY g)])"
      by (simp add: scanAndTrade_def tw)
    moreover have "tradesOf (evs @ [LoopError e, Sleep (RETRY_DELAY g)])
        = eligibleWallets b (c_now r) (c_randomDelay r)"
      by (simp add: tradesOf_append tr)
    ultimately show ?thesis using run by blast
  next
    case (Inr d')
    then have "scanAndTrade v u g r b d = (b', d', evs @ [Persisted, Sleep (CHECK_INTERVAL g)])"
      by (simp add: scanAndTrade_def tw)
    moreover have "tradesOf (evs @ [Persisted, Sleep (CHECK_INTERVAL g)])
        = eligibleWallets b (c_now r) (c_randomDelay r)"
      by (simp add: tradesOf_append tr)
    ultimately show ?thesis using run by blast
  qed
qed

lemma startTrading_mysever:
  "startTrading MySever u g rs (b, d) =
     (if running b then Inl AlreadyRunning
      else Inr (tradingLoop MySever u g rs (b\<lparr>running := True\<rparr>, d)))"
  by (simp add: startTrading_def)

lemma tradingLoop_server_never_returns: "tradingLoop Server u g rs s = None"
  by (induction rs arbitrary: s) (simp_all add: loopCondition_def split: prod.splits)

lemma tradingLoop_stopped:
  "\<not> loopCondition v (fst s) \<Longrightarrow> tradingLoop v u g rs s = Some (fst s, snd s, [Stopped])"
  by (cases rs) simp_all

lemma tradingCycle_gate_server:
  assumes "c_gasPrice r = Inr gas"
  shows "tradingCycle Server u g r (b, d) =
           (case scanAndTrade Server u g r (cycleStart g r b) d of
              (b2, d', evs) \<Rightarrow>
                (b2, d', (if c_randomUpdate r < 1 / 10 then [ActiveSetUpdated] else []) @ evs))"
  using assms
  by (simp add: tradingCycle_def isGasPriceAcceptable_def isGasPriceAcceptable_server_def Let_def)

lemma tradingCycle_gate_mysever:
  assumes "c_gasPrice r = Inr gas"
  shows "tradingCycle MySever u g r (b, d) =
           (if formatGwei u gas < maxGasPrice (chainConfig b) then
              (case scanAndTrade MySever u g r (cycleStart g r b) d of
                 (b2, d', evs) \<Rightarrow>
                   (b2, d', (if c_randomUpdate r < 1 / 10 then [ActiveSetUpdated] else []) @ evs))
            else
              (cycleStart g r b, d,
               (if c_randomUpdate r < 1 / 10 then [ActiveSetUpdated] else [])
                 @ [GasTooHigh, Sleep (RETRY_DELAY g)]))"
  using assms
  by (simp add: tradingCycle_def isGasPriceAcceptable_def isGasPriceAcceptable_mysever_def Let_def)

section \<open>Properties: the gas price gate\<close>

text \<open>
  \<open>tradingCycle_gate_mysever\<close> is the gate of \<^verbatim>\<open>mysever.js\<close>: the cycle goes on to the
  scan when the gas price is below \<open>maxGasPrice\<close> and otherwise logs, sleeps the retry
  delay and attempts no trade. \<open>tradingCycle_gate_server\<close> is \<^verbatim>\<open>server.js\<close>: the
  cycle goes on to the scan at every gas price.
\<close>

lemma demo_server_trade:
  "executeTrade Server exact_utils GLOBAL_CONFIG (demo_active_bot Server [demo_wallet ''a''])
     (demo_wallet ''a'') (demo_trade 1000000000000000000 0)
   = Inr (\<lparr>address = ''0xa'', privateKey = ''a'', lastTradeTime = 1700000000000\<rparr>,
          [SwapNativeForTokens ''0xa'' 950000000000000000 [0, 0]
             [''0xB31f66AA3C1e785363F0875A1B74E27b85FD66c7'', ''0xToken'']
             ''0xa'' 1700001200 200000000000000000 300000 27500000000],
          TradeExecuted True (1 / 5))"
  by (simp add: executeTrade_def fundWallet_def buyTokensWithAVAX_def minOutOf_def
      calculateSlippage_def generateRandomAmount_def BN_div_def toFixed18_def toStringWei_def
      demo_trade_def demo_buy_def demo_quote_def demo_active_bot_def demo_bot_def demo_wallet_def
      exact_utils_def GLOBAL_CONFIG_def CHAIN_CONFIG_avax_def Let_def)

lemma demo_server_eligible:
  "eligibleWallets
     (cycleStart GLOBAL_CONFIG (demo_cycle gas stop) (demo_active_bot Server [demo_wallet ''a'']))
     (c_now (demo_cycle gas stop)) (c_randomDelay (demo_cycle gas stop)) = [0]"
  by (simp add: eligibleWallets_def cycleStart_def demo_cycle_def demo_active_bot_def demo_bot_def
      demo_wallet_def generateRandomDelay_def CHAIN_CONFIG_avax_def)

lemma demo_server_tradeWallets:
  "tradeWallets Server exact_utils GLOBAL_CONFIG (demo_cycle gas NoStop) [0]
     (demo_active_bot Server [demo_wallet ''a''])
   = ((demo_active_bot Server [demo_wallet ''a''])
        \<lparr>tempWallets := [\<lparr>address = ''0xa'', privateKey = ''a'', lastTradeTime = 1700000000000\<rparr>]\<rparr>,
      [Trade 0
         [SwapNativeForTokens ''0xa'' 950000000000000000 [0, 0]
            [''0xB31f66AA3C1e785363F0875A1B74E27b85FD66c7'', ''0xToken'']
            ''0xa'' 1700001200 200000000000000000 300000 27500000000]
         (TradeExecuted True (1 / 5)),
       Sleep 2000],
      None)"
proof -
  have w: "tempWallets (demo_active_bot Server [demo_wallet ''a'']) ! 0 = demo_wallet ''a''"
    by (simp add: demo_active_bot_def demo_bot_def)
  have t: "c_trade (demo_cycle gas NoStop) 0 = demo_trade (10 ^ 18) 0"
    by (simp add: demo_cycle_def)
  have j: "c_jitter (demo_cycle gas NoStop) 0 = 1 / 2" by (simp add: demo_cycle_def)
  have l: "tempWallets (demo_active_bot Server [demo_wallet ''a'']) = [demo_wallet ''a'']"
    by (simp add: demo_active_bot_def demo_bot_def)
  show ?thesis
    by (simp add: w t j l demo_server_trade stopDuringTrade_def Let_def)
qed

lemma demo_cycleStart: "cycleStart g (demo_cycle gas stop) b = b"
  by (simp add: cycleStart_def demo_cycle_def)

lemma demo_server_cycle:
  "snd (snd (tradingCycle Server exact_utils GLOBAL_CONFIG (demo_cycle gas NoStop)
     (demo_active_bot Server [demo_wallet ''a''], demo_disk)))
   = [Trade 0
        [SwapNativeForTokens ''0xa'' 950000000000000000 [0, 0]
           [''0xB31f66AA3C1e785363F0875A1B74E27b85FD66c7'', ''0xToken'']
           ''0xa'' 1700001200 200000000000000000 300000 27500000000]
        (TradeExecuted True (1 / 5)),
      Sleep 2000, Persisted, Sleep 30000]"
proof -
  have g: "c_gasPrice (demo_cycle gas NoStop) = Inr gas"
    by (simp add: demo_cycle_def)
  have u: "\<not> c_randomUpdate (demo_cycle gas NoStop) < 1 / 10"
    by (simp add: demo_cycle_def)
  have e: "eligibleWallets (demo_active_bot Server [demo_wallet ''a''])
      (c_now (demo_cycle gas NoStop)) (c_randomDelay (demo_cycle gas NoStop)) = [0]"
    using demo_server_eligible [of gas NoStop] by (simp only: demo_cycleStart)
  have s: "snd (snd (scanAndTrade Server exact_utils GLOBAL_CONFIG (demo_cycle gas NoStop)
        (demo_active_bot Server [demo_wallet ''a'']) demo_disk))
      = [Trade 0
           [SwapNativeForTokens ''0xa'' 950000000000000000 [0, 0]
              [''0xB31f66AA3C1e785363F0875A1B74E27b85FD66c7'', ''0xToken'']
              ''0xa'' 1700001200 200000000000000000 300000 27500000000]
           (TradeExecuted True (1 / 5)),
         Sleep 2000, Persisted, Sleep 30000]"
    by (simp add: scanAndTrade_def e demo_server_tradeWallets writeFileSync_def demo_disk_def
          del: tradeWallets.simps)
      (simp add: GLOBAL_CONFIG_def)
  have "snd (snd (tradingCycle Server exact_utils GLOBAL_CONFIG (demo_cycle gas NoStop)
     (demo_active_bot Server [demo_wallet ''a''], demo_disk)))
     = snd (snd (scanAndTrade Server exact_utils GLOBAL_CONFIG (demo_cycle gas NoStop)
        (demo_active_bot Server [demo_wallet ''a'']) demo_disk))"
    using u by (simp add: tradingCycle_gate_server [OF g] demo_cycleStart split: prod.splits)
  then show ?thesis using s by simp
qed

text \<open>
  Claim C1 at a gas price of \<open>60\<close> gwei with \<open>maxGasPrice = 50\<close>. In \<^verbatim>\<open>server.js\<close>
  \<^verbatim>\<open>isGasPriceAcceptable\<close> computes the price in gwei and returns \<^verbatim>\<open>true\<close> without
  comparing it: the cycle scans, executes a buy for the eligible wallet, persists and
  sleeps the check interval. On the same input \<^verbatim>\<open>mysever.js\<close> attempts no trade and
  sleeps the retry delay (\<open>mysever_skips_above_limit\<close>); at a price equal to
  \<open>maxGasPrice\<close> it skips as well (\<open>mysever_skips_at_limit\<close>).
\<close>

theorem C1_server_trades_at_high_gas_price:
  "formatGwei exact_utils (60 * 10 ^ 9) = 60 \<and>
   maxGasPrice (chainConfig (demo_active_bot Server [demo_wallet ''a''])) = 50 \<and>
   snd (snd (tradingCycle Server exact_utils GLOBAL_CONFIG (demo_cycle (60 * 10 ^ 9) NoStop)
     (demo_active_bot Server [demo_wallet ''a''], demo_disk)))
   = [Trade 0
        [SwapNativeForTokens ''0xa'' 950000000000000000 [0, 0]
           [''0xB31f66AA3C1e785363F0875A1B74E27b85FD66c7'', ''0xToken'']
           ''0xa'' 1700001200 200000000000000000 300000 27500000000]
        (TradeExecuted True (1 / 5)),
      Sleep 2000, Persisted, Sleep 30000]"
proof -
  have "formatGwei exact_utils (60 * 10 ^ 9) = 60" by (simp add: exact_utils_def)
  moreover have "maxGasPrice (chainConfig (demo_active_bot Server [demo_wallet ''a''])) = 50"
    by (simp add: demo_active_bot_def demo_bot_def CHAIN_CONFIG_avax_def)
  ultimately show ?thesis using demo_server_cycle [of "60 * 10 ^ 9"] by (simp only:) 
qed

lemma mysever_skips_above_limit:
  "snd (snd (tradingCycle MySever exact_utils GLOBAL_CONFIG (demo_cycle (60 * 10 ^ 9) NoStop)
     (demo_active_bot MySever [demo_wallet ''a''], demo_disk)))
   = [GasTooHigh, Sleep 60000]"
  by (simp add: tradingCycle_def isGasPriceAcceptable_def isGasPriceAcceptable_mysever_def
      cycleStart_def demo_cycle_def demo_active_bot_def demo_bot_def exact_utils_def
      GLOBAL_CONFIG_def CHAIN_CONFIG_avax_def Let_def)

lemma mysever_skips_at_limit:
  "formatGwei exact_utils (50 * 10 ^ 9) = maxGasPrice (chainConfig (demo_active_bot MySever [demo_wallet ''a''])) \<and>
   snd (snd (tradingCycle MySever exact_utils GLOBAL_CONFIG (demo_cycle (50 * 10 ^ 9) NoStop)
     (demo_active_bot MySever [demo_wallet ''a''], demo_disk)))
   = [GasTooHigh, Sleep 60000]"
  by (simp add: tradingCycle_def isGasPriceAcceptable_def isGasPriceAcceptable_mysever_def
      cycleStart_def demo_cycle_def demo_active_bot_def demo_bot_def exact_utils_def
      GLOBAL_CONFIG_def CHAIN_CONFIG_avax_def Let_def)

section \<open>Properties: the time of the last trade\<close>







section \<open>Properties: stopping\<close>

lemma stop_during_trade_cycle:
  assumes gas: "isGasPriceAcceptable MySever u (chainConfig b) (c_gasPrice r) = Inr True"
    and stop: "c_stop r = StopDuringTrade i"
    and el: "i \<in> set (eligibleWallets (cycleStart g r b) (c_now r) (c_randomDelay r))"
    and keys: "\<forall>j \<in> set (eligibleWallets (cycleStart g r b) (c_now r) (c_randomDelay r)).
                 \<exists>a. walletAddress u (privateKey (tempWallets b ! j)) = Inr a"
  shows "\<exists>b' d' evs. tradingCycle MySever u g r (b, d) = (b', d', evs) \<and>
           tradesOf evs = eligibleWallets (cycleStart g r b) (c_now r) (c_randomDelay r) \<and>
           \<not> running b'"
proof -
  let ?E = "eligibleWallets (cycleStart g r b) (c_now r) (c_randomDelay r)"
  have keys': "\<forall>j \<in> set ?E. \<exists>a. walletAddress u (privateKey (tempWallets (cycleStart g r b) ! j)) = Inr a"
    using keys by simp
  from scanAndTrade_all [OF keys', of MySever g d] obtain b' d' evs where
    sc: "scanAndTrade MySever u g r (cycleStart g r b) d = (b', d', evs)"
    and tr: "tradesOf evs = ?E"
    and run: "running b' \<longleftrightarrow>
       running (cycleStart g r b) \<and> \<not> (MySever = MySever \<and> (\<exists>i \<in> set ?E. c_stop r = StopDuringTrade i))"
    by blast
  have nrun: "\<not> running b'" using run stop el by blast
  have cyc: "tradingCycle MySever u g r (b, d) =
      (b', d', (if c_randomUpdate r < 1 / 10 then [ActiveSetUpdated] else []) @ evs)"
    using gas sc by (simp add: tradingCycle_def Let_def)
  have "tradesOf ((if c_randomUpdate r < 1 / 10 then [ActiveSetUpdated] else []) @ evs) = ?E"
    by (simp add: tradesOf_append tr)
  with cyc nrun show ?thesis by blast
qed

text \<open>
  Claim C8, as the code has it (\<^verbatim>\<open>mysever.js\<close>). A stop request handled while the
  trade of an eligible wallet is in flight clears the flag and nothing else: the trade
  completes, every eligible wallet of the cycle is still traded, in order (the
  \<^verbatim>\<open>for\<close> loop does not read the flag), and the loop is left at the next test of
  the flag at its top, whatever cycles would have followed. The hypotheses: the bot is
  running, the gas price is acceptable, and the keys of the eligible wallets are valid.
\<close>

theorem C8_stop_during_trade:
  assumes run: "running b"
    and gas: "isGasPriceAcceptable MySever u (chainConfig b) (c_gasPrice r) = Inr True"
    and stop: "c_stop r = StopDuringTrade i"
    and el: "i \<in> set (eligibleWallets (cycleStart g r b) (c_now r) (c_randomDelay r))"
    and keys: "\<forall>j \<in> set (eligibleWallets (cycleStart g r b) (c_now r) (c_randomDelay r)).
                 \<exists>a. walletAddress u (privateKey (tempWallets b ! j)) = Inr a"
  shows "\<exists>b' d' evs. tradingLoop MySever u g (r # rs) (b, d) = Some (b', d', evs @ [Stopped]) \<and>
           tradesOf evs = eligibleWallets (cycleStart g r b) (c_now r) (c_randomDelay r) \<and>
           \<not> running b'"
proof -
  from stop_during_trade_cycle [OF gas stop el keys, of d] obtain b' d' evs where
    cyc: "tradingCycle MySever u g r (b, d) = (b', d', evs)"
    and tr: "tradesOf evs = eligibleWallets (cycleStart g r b) (c_now r) (c_randomDelay r)"
    and nrun: "\<not> running b'"
    by blast
  have rest: "tradingLoop MySever u g rs (b', d') = Some (b', d', [Stopped])"
    using tradingLoop_stopped [of MySever "(b', d')" u g rs] nrun
    by (simp add: loopCondition_def)
  have "tradingLoop MySever u g (r # rs) (b, d) = Some (b', d', evs @ [Stopped])"
    using run cyc rest stop by (simp add: loopCondition_def)
  with tr nrun show ?thesis by blast
qed

lemma demo_eligible:
  "eligibleWallets
     (cycleStart GLOBAL_CONFIG (demo_cycle gas stop)
        (demo_active_bot MySever [demo_wallet ''a'', demo_wallet ''b'']))
     (c_now (demo_cycle gas stop)) (c_randomDelay (demo_cycle gas stop)) = [0, 1]"
  by (simp add: eligibleWallets_def cycleStart_def demo_cycle_def demo_active_bot_def demo_bot_def
      demo_wallet_def generateRandomDelay_def CHAIN_CONFIG_avax_def upt2)

lemma demo_gas_ok:
  "isGasPriceAcceptable MySever exact_utils
     (chainConfig (demo_active_bot MySever ws)) (c_gasPrice (demo_cycle (40 * 10 ^ 9) stop)) = Inr True"
  by (simp add: isGasPriceAcceptable_def isGasPriceAcceptable_mysever_def exact_utils_def
      demo_cycle_def demo_active_bot_def demo_bot_def CHAIN_CONFIG_avax_def)

lemma demo_keys:
  "\<forall>j \<in> set [0, 1 :: nat].
     \<exists>a. walletAddress exact_utils
            (privateKey (tempWallets (demo_active_bot MySever [demo_wallet ''a'', demo_wallet ''b'']) ! j))
          = Inr a"
  by (simp add: exact_utils_def)

theorem C8_stop_during_trade_witness:
  "\<exists>b' d' evs.
     tradingLoop MySever exact_utils GLOBAL_CONFIG [demo_cycle (40 * 10 ^ 9) (StopDuringTrade 0)]
       (demo_active_bot MySever [demo_wallet ''a'', demo_wallet ''b''], demo_disk)
     = Some (b', d', evs @ [Stopped]) \<and>
     tradesOf evs = [0, 1] \<and> \<not> running b'"
proof -
  let ?b = "demo_active_bot MySever [demo_wallet ''a'', demo_wallet ''b'']"
  let ?r = "demo_cycle (40 * 10 ^ 9) (StopDuringTrade 0)"
  have 1: "running ?b" by (simp add: demo_active_bot_def)
  have 3: "c_stop ?r = StopDuringTrade 0" by (simp add: demo_cycle_def)
  have 4: "0 \<in> set (eligibleWallets (cycleStart GLOBAL_CONFIG ?r ?b) (c_now ?r) (c_randomDelay ?r))"
    by (simp add: demo_eligible)
  have 5: "\<forall>j \<in> set (eligibleWallets (cycleStart GLOBAL_CONFIG ?r ?b) (c_now ?r) (c_randomDelay ?r)).
             \<exists>a. walletAddress exact_utils (privateKey (tempWallets ?b ! j)) = Inr a"
    unfolding demo_eligible by (rule demo_keys)
  show ?thesis
    using C8_stop_during_trade [OF 1 demo_gas_ok 3 4 5, where rs = "[]" and d = demo_disk]
    unfolding demo_eligible .
qed

text \<open>
  Two eligible wallets, and the stop request handled during the trade of the first: the
  cycle trades the second wallet too.
\<close>

theorem C8_later_wallets_counterexample:
  "c_stop (demo_cycle (40 * 10 ^ 9) (StopDuringTrade 0)) = StopDuringTrade 0 \<and>
   (\<exists>b' d' evs.
      tradingCycle MySever exact_utils GLOBAL_CONFIG (demo_cycle (40 * 10 ^ 9) (StopDuringTrade 0))
        (demo_active_bot MySever [demo_wallet ''a'', demo_wallet ''b''], demo_disk)
      = (b', d', evs) \<and>
      tradesOf evs = [0, 1])"
proof -
  let ?b = "demo_active_bot MySever [demo_wallet ''a'', demo_wallet ''b'']"
  let ?r = "demo_cycle (40 * 10 ^ 9) (StopDuringTrade 0)"
  have 3: "c_stop ?r = StopDuringTrade 0" by (simp add: demo_cycle_def)
  have 4: "0 \<in> set (eligibleWallets (cycleStart GLOBAL_CONFIG ?r ?b) (c_now ?r) (c_randomDelay ?r))"
    by (simp add: demo_eligible)
  have 5: "\<forall>j \<in> set (eligibleWallets (cycleStart GLOBAL_CONFIG ?r ?b) (c_now ?r) (c_randomDelay ?r)).
             \<exists>a. walletAddress exact_utils (privateKey (tempWallets ?b ! j)) = Inr a"
    unfolding demo_eligible by (rule demo_keys)
  show ?thesis
    using stop_during_trade_cycle [OF demo_gas_ok 3 4 5, of demo_disk] 3
    unfolding demo_eligible by blast
qed

section \<open>Properties: the overrides of a start request\<close>

lemma js_or_falsy: "falsy a \<Longrightarrow> js_or a b = b"
  by (simp add: js_or_def)

lemma js_or_truthy: "\<not> falsy a \<Longrightarrow> js_or a b = a"
  by (simp add: js_or_def)

lemma falsy_js_or: "falsy (js_or a b) \<longleftrightarrow> falsy a \<and> falsy b"
  by (simp add: js_or_def)

lemma falsy_times1000: "falsy (times1000 a) \<longleftrightarrow> falsy a"
  by (cases a) (simp_all add: times1000_def falsy_def)

lemma nonzeroConfig_overrideConfig:
  "nonzeroConfig cfg \<Longrightarrow> nonzeroConfig (overrideConfig req cfg)"
  by (simp add: nonzeroConfig_def overrideConfig_def falsy_js_or)

lemma nonzeroConfig_initial: "nonzeroConfig (initial_CHAIN_CONFIG token)"
  by (simp add: nonzeroConfig_def initial_CHAIN_CONFIG_def CHAIN_CONFIG_avax_def falsy_def Let_def)

lemma api_start_config:
  assumes "\<not> isRunning st" "made = Inr ()"
  shows "CHAIN_CONFIG (snd (api_start req made initialized st)) = overrideConfig req (CHAIN_CONFIG st)"
  using assms by (cases initialized) (simp_all add: api_start_def Let_def)

lemma api_start_count:
  assumes "\<not> isRunning st" "made = Inr ()" "initialized = Inr ()"
  shows "madeWithCount (last (bots (snd (api_start req made initialized st))))
           = js_or (walletCounts req) (Num 5)"
  using assms by (simp add: api_start_def Let_def)

text \<open>
  Claim C10, as the code has it. When a start request is accepted (no bot is running and
  the constructor succeeds), every override that parsed to \<open>0\<close> or \<^verbatim>\<open>NaN\<close> leaves
  its parameter at the value that the chain configuration holds when the request
  arrives, and a wallet count that parsed to \<open>0\<close> or \<^verbatim>\<open>NaN\<close> becomes \<open>5\<close>. That value
  is the built-in default at the first start; the configuration is the one object of
  the module, so after a start with an override it is that override. If no parameter of
  the configuration was \<open>0\<close> or \<^verbatim>\<open>NaN\<close> before the request, none is after it: no
  override sets a parameter to zero.
\<close>

theorem C10_start_overrides:
  assumes "\<not> isRunning st" "made = Inr ()"
  shows "(falsy (AvaxFundAmount req) \<longrightarrow>
            fundAmount (tradingParams (CHAIN_CONFIG (snd (api_start req made initialized st))))
              = fundAmount (tradingParams (CHAIN_CONFIG st))) \<and>
         (falsy (maxGas req) \<longrightarrow>
            maxGasPrice (CHAIN_CONFIG (snd (api_start req made initialized st)))
              = maxGasPrice (CHAIN_CONFIG st)) \<and>
         (falsy (tradingMintAmount req) \<longrightarrow>
            minAmountAVAX (tradingParams (CHAIN_CONFIG (snd (api_start req made initialized st))))
              = minAmountAVAX (tradingParams (CHAIN_CONFIG st))) \<and>
         (falsy (tradingMaxAmount req) \<longrightarrow>
            maxAmountAVAX (tradingParams (CHAIN_CONFIG (snd (api_start req made initialized st))))
              = maxAmountAVAX (tradingParams (CHAIN_CONFIG st))) \<and>
         (falsy (tradingMinInterval req) \<longrightarrow>
            minInterval (tradingParams (CHAIN_CONFIG (snd (api_start req made initialized st))))
              = minInterval (tradingParams (CHAIN_CONFIG st))) \<and>
         (falsy (tradingMaxInterval req) \<longrightarrow>
            maxInterval (tradingParams (CHAIN_CONFIG (snd (api_start req made initialized st))))
              = maxInterval (tradingParams (CHAIN_CONFIG st))) \<and>
         (falsy (walletCounts req) \<and> initialized = Inr () \<longrightarrow>
            madeWithCount (last (bots (snd (api_start req made initialized st)))) = Num 5) \<and>
         (nonzeroConfig (CHAIN_CONFIG st) \<longrightarrow>
            nonzeroConfig (CHAIN_CONFIG (snd (api_start req made initialized st))))"
proof -
  note cfg = api_start_config [OF assms, of req initialized]
  have "falsy (walletCounts req) \<and> initialized = Inr () \<longrightarrow>
            madeWithCount (last (bots (snd (api_start req made initialized st)))) = Num 5"
    using api_start_count [OF assms, of initialized req] by (simp add: js_or_falsy)
  moreover have "nonzeroConfig (CHAIN_CONFIG st) \<longrightarrow>
            nonzeroConfig (CHAIN_CONFIG (snd (api_start req made initialized st)))"
    unfolding cfg by (simp add: nonzeroConfig_overrideConfig)
  ultimately show ?thesis
    unfolding cfg by (simp add: overrideConfig_def js_or_falsy falsy_times1000)
qed

theorem C10_start_overrides_witness:
  "fundAmount (tradingParams (CHAIN_CONFIG (snd (api_start (demo_request (Num 0)) (Inr ()) (Inr ())
      (initial_state ''0xToken'')))))
     = Num (4 / 10) \<and>
   maxGasPrice (CHAIN_CONFIG (snd (api_start (demo_request (Num 0)) (Inr ()) (Inr ())
      (initial_state ''0xToken''))))
     = Num 50 \<and>
   minAmountAVAX (tradingParams (CHAIN_CONFIG (snd (api_start (demo_request (Num 0)) (Inr ()) (Inr ())
      (initial_state ''0xToken'')))))
     = Num (1 / 100) \<and>
   maxAmountAVAX (tradingParams (CHAIN_CONFIG (snd (api_start (demo_request (Num 0)) (Inr ()) (Inr ())
      (initial_state ''0xToken'')))))
     = Num (3 / 100) \<and>
   minInterval (tradingParams (CHAIN_CONFIG (snd (api_start (demo_request (Num 0)) (Inr ()) (Inr ())
      (initial_state ''0xToken'')))))
     = Num 60000 \<and>
   maxInterval (tradingParams (CHAIN_CONFIG (snd (api_start (demo_request (Num 0)) (Inr ()) (Inr ())
      (initial_state ''0xToken'')))))
     = Num 120000 \<and>
   madeWithCount (last (bots (snd (api_start (demo_request (Num 0)) (Inr ()) (Inr ())
      (initial_state ''0xToken''))))) = Num 5 \<and>
   nonzeroConfig (CHAIN_CONFIG (snd (api_start (demo_request (Num 0)) (Inr ()) (Inr ())
      (initial_state ''0xToken''))))"
proof -
  have 1: "\<not> isRunning (initial_state ''0xToken'')" by (simp add: initial_state_def)
  have f: "falsy (AvaxFundAmount (demo_request (Num 0)))" "falsy (maxGas (demo_request (Num 0)))"
    "falsy (tradingMintAmount (demo_request (Num 0)))" "falsy (tradingMaxAmount (demo_request (Num 0)))"
    "falsy (tradingMinInterval (demo_request (Num 0)))" "falsy (tradingMaxInterval (demo_request (Num 0)))"
    "falsy (walletCounts (demo_request (Num 0)))"
    by (simp_all add: demo_request_def falsy_def)
  have i: "CHAIN_CONFIG (initial_state ''0xToken'') = initial_CHAIN_CONFIG ''0xToken''"
    by (simp add: initial_state_def)
  have d: "fundAmount (tradingParams (initial_CHAIN_CONFIG ''0xToken'')) = Num (4 / 10)"
    "maxGasPrice (initial_CHAIN_CONFIG ''0xToken'') = Num 50"
    "minAmountAVAX (tradingParams (initial_CHAIN_CONFIG ''0xToken'')) = Num (1 / 100)"
    "maxAmountAVAX (tradingParams (initial_CHAIN_CONFIG ''0xToken'')) = Num (3 / 100)"
    "minInterval (tradingParams (initial_CHAIN_CONFIG ''0xToken'')) = Num 60000"
    "maxInterval (tradingParams (initial_CHAIN_CONFIG ''0xToken'')) = Num 120000"
    by (simp_all add: initial_CHAIN_CONFIG_def CHAIN_CONFIG_avax_def Let_def)
  show ?thesis
    using C10_start_overrides [OF 1 refl, of "demo_request (Num 0)" "Inr ()"] f
      nonzeroConfig_initial [of "''0xToken''"]
    by (simp only: i d simp_thms)
qed

text \<open>
  A start with \<open>maxGas = 80\<close>, a stop, and a start with \<open>maxGas = 0\<close>: the second start
  runs with \<open>maxGasPrice = 80\<close>, not with the default \<open>50\<close> of the chain.
\<close>

theorem C10_earlier_override_counterexample:
  "maxGas (demo_request (Num 0)) = Num 0 \<and>
   maxGasPrice (CHAIN_CONFIG (initial_state ''0xToken'')) = Num 50 \<and>
   fst (api_start (demo_request (Num 80)) (Inr ()) (Inr ()) (initial_state ''0xToken'')) = Started \<and>
   fst (api_start (demo_request (Num 0)) (Inr ()) (Inr ())
          (api_stop (snd (api_start (demo_request (Num 80)) (Inr ()) (Inr ())
             (initial_state ''0xToken''))))) = Started \<and>
   maxGasPrice (CHAIN_CONFIG (snd (api_start (demo_request (Num 0)) (Inr ()) (Inr ())
          (api_stop (snd (api_start (demo_request (Num 80)) (Inr ()) (Inr ())
             (initial_state ''0xToken''))))))) = Num 80"
  by (simp add: api_start_def api_stop_def overrideConfig_def js_or_def falsy_def times1000_def
      demo_request_def initial_state_def initial_CHAIN_CONFIG_def CHAIN_CONFIG_avax_def Let_def)

end
